theory Spec2Isabelle
  imports Complex_Main
begin

section \<open>Python values, exceptions and the outside world\<close>

text \<open>
  Timestamps are the readings of \<^verbatim>\<open>datetime.utcnow()\<close>, counted in microseconds.
  The store keeps them as ISO-8601 text, whose lexicographic order is the order of the
  readings, so the model compares the readings themselves.
\<close>

type_synonym time = int

text \<open>
  A raised exception: the name of its class and \<^verbatim>\<open>str(e)\<close>. Only instances of
  \<^verbatim>\<open>Exception\<close> are modelled; \<^verbatim>\<open>KeyboardInterrupt\<close>, \<^verbatim>\<open>SystemExit\<close> and task
  cancellation are process control and no function of the program handles them.
\<close>

datatype pyexc = PyExc string string

text \<open>
  The values \<^verbatim>\<open>json.loads\<close> produces, which are also the values the program puts into
  its result dictionaries and its audit log. A dictionary is the list of its items in
  insertion order, with distinct keys. Floats are idealised as rationals.
\<close>

datatype json =
    JNull
  | JBool bool
  | JInt int
  | JFloat rat
  | JString string
  | JArray "json list"
  | JObject "(string \<times> json) list"

text \<open>Python truthiness, as \<^verbatim>\<open>if x\<close> and \<^verbatim>\<open>not x\<close> test it.\<close>

fun truthy :: "json \<Rightarrow> bool" where
  "truthy JNull = False"
| "truthy (JBool b) = b"
| "truthy (JInt i) = (i \<noteq> 0)"
| "truthy (JFloat r) = (r \<noteq> 0)"
| "truthy (JString s) = (s \<noteq> [])"
| "truthy (JArray xs) = (xs \<noteq> [])"
| "truthy (JObject kvs) = (kvs \<noteq> [])"

text \<open>\<^verbatim>\<open>d.get(k, default)\<close> on a dictionary with string keys.\<close>

definition dict_get :: "(string \<times> json) list \<Rightarrow> string \<Rightarrow> json \<Rightarrow> json" where
  "dict_get d k dflt = (case map_of d k of None \<Rightarrow> dflt | Some v \<Rightarrow> v)"

text \<open>
  \<^verbatim>\<open>d.get(key)\<close> on a dictionary whose keys are strings, for a key that is any JSON
  value: a list or a dictionary is unhashable and raises, any other value that is not a
  string is simply absent.
\<close>

fun py_dict_get :: "(string \<rightharpoonup> 'a) \<Rightarrow> json \<Rightarrow> pyexc + 'a option" where
  "py_dict_get d (JString s) = Inr (d s)"
| "py_dict_get d (JArray xs) = Inl (PyExc ''TypeError'' ''unhashable type: list'')"
| "py_dict_get d (JObject kvs) = Inl (PyExc ''TypeError'' ''unhashable type: dict'')"
| "py_dict_get d v = Inr None"

text \<open>\<^verbatim>\<open>sep.join(xs)\<close>.\<close>

fun str_join :: "string \<Rightarrow> string list \<Rightarrow> string" where
  "str_join sep [] = []"
| "str_join sep [x] = x"
| "str_join sep (x # y # ys) = x @ sep @ str_join sep (y # ys)"

text \<open>
  Python's slices \<^verbatim>\<open>xs[i:]\<close> and \<^verbatim>\<open>xs[:i]\<close> for any integer \<open>i\<close>: a negative index
  counts from the end, and an index out of range is clipped.
\<close>

definition slice_index :: "'a list \<Rightarrow> int \<Rightarrow> nat" where
  "slice_index xs i =
     (let n = int (length xs) in nat (if i < 0 then max (n + i) 0 else min i n))"

definition py_slice_from :: "'a list \<Rightarrow> int \<Rightarrow> 'a list" where
  "py_slice_from xs i = drop (slice_index xs i) xs"

definition py_slice_to :: "'a list \<Rightarrow> int \<Rightarrow> 'a list" where
  "py_slice_to xs i = take (slice_index xs i) xs"

section \<open>The data model\<close>

text \<open>\<^verbatim>\<open>memory.Memory\<close>, one row of the table \<^verbatim>\<open>memories\<close>.\<close>

record Memory =
  id' :: int
  content :: string
  user_id :: string
  tags :: "string list"
  created_at :: time
  accessed_at :: time
  access_count :: int

text \<open>\<^verbatim>\<open>agent.Message\<close>, one entry of the conversation history.\<close>

record Message =
  role :: string
  content' :: string
  timestamp :: time
  metadata :: "(string \<times> json) list"

text \<open>\<^verbatim>\<open>agent.AgentResponse\<close>.\<close>

record AgentResponse =
  text' :: string
  actions_taken :: "string list"
  memories_used :: "string list"
  error :: "string option"

text \<open>
  Everything the program calls and does not define: the standard library, the SQLite
  full-text index, the completion backend and the clock. The world \<open>'w\<close> is threaded
  through every call that can have an effect.
  \<^item> \<open>json_loads\<close> is \<^verbatim>\<open>json.loads\<close> on a string: the parsed value, or the exception
    it raises, which is \<^verbatim>\<open>JSONDecodeError\<close> for a text that is not JSON and can be
    another one (\<^verbatim>\<open>ValueError\<close> for an integer of too many digits, \<^verbatim>\<open>RecursionError\<close>
    for too deep a nesting);
  \<^item> \<open>repr\<close> is \<^verbatim>\<open>repr\<close>, which is also \<^verbatim>\<open>str\<close> on every value but a string;
  \<^item> \<open>fts_match\<close> takes the query and the indexed rows (rowid, content) and gives the
    rowids that match, best rank first, or the error of a malformed query;
  \<^item> \<open>llm_create\<close> is the backend behind \<^verbatim>\<open>_call_llm\<close>, given the system prompt and the
    messages, and returns the raw response, which may be absent;
  \<^item> \<open>llm_create_simple\<close> is the backend behind \<^verbatim>\<open>_call_llm_simple\<close>;
  \<^item> \<open>system_prompt\<close> is \<^verbatim>\<open>build_system_prompt\<close> over the agent's name, the memories
    and the registry's tool descriptions.
\<close>

record 'w env =
  json_loads :: "string \<Rightarrow> pyexc + json"
  json_dumps :: "json \<Rightarrow> string"
  repr :: "json \<Rightarrow> string"
  isoformat :: "time \<Rightarrow> string"
  utcnow :: "'w \<Rightarrow> time \<times> 'w"
  fts_match :: "string \<Rightarrow> (int \<times> string) list \<Rightarrow> pyexc + int list"
  llm_create :: "string \<Rightarrow> (string \<times> string) list \<Rightarrow> 'w \<Rightarrow> (pyexc + string option) \<times> 'w"
  llm_create_simple :: "string \<Rightarrow> 'w \<Rightarrow> (pyexc + string) \<times> 'w"
  system_prompt :: "string \<Rightarrow> Memory list \<Rightarrow> 'w \<Rightarrow> string \<times> 'w"

text \<open>\<^verbatim>\<open>str(v)\<close>, and \<^verbatim>\<open>{v}\<close> inside an f-string.\<close>

definition py_str :: "'w env \<Rightarrow> json \<Rightarrow> string" where
  "py_str env v = (case v of JString s \<Rightarrow> s | _ \<Rightarrow> repr env v)"

section \<open>The tool registry and the tool executor\<close>

text \<open>
  A registered tool, called as \<^verbatim>\<open>str(await tool(**arguments))\<close>: it takes the keyword
  arguments and the world, and either raises or returns the text of its result.
\<close>

type_synonym 'w tool = "(string \<times> json) list \<Rightarrow> 'w \<Rightarrow> (pyexc + string) \<times> 'w"

type_synonym 'w callback = "string \<Rightarrow> 'w \<Rightarrow> (pyexc + bool) \<times> 'w"

record tool_meta =
  skill :: string
  description :: string
  confirm_required :: bool

record 'w ToolRegistry =
  tools :: "string \<rightharpoonup> 'w tool"
  tool_metadata :: "string \<rightharpoonup> tool_meta"

record 'w ToolExecutor =
  registry :: "'w ToolRegistry"
  confirm_before_action :: bool
  confirm_callback :: "'w callback option"
  audit_log :: "json list"

definition requires_confirmation :: "'w ToolRegistry \<Rightarrow> json \<Rightarrow> pyexc + bool" where
  "requires_confirmation reg tool_name =
     (case py_dict_get (tool_metadata reg) tool_name of
        Inl e \<Rightarrow> Inl e
      | Inr None \<Rightarrow> Inr False
      | Inr (Some meta) \<Rightarrow> Inr (confirm_required meta))"

definition error_result :: "json \<Rightarrow> string \<Rightarrow> json \<Rightarrow> json" where
  "error_result tool_name err duration_ms =
     JObject [(''success'', JBool False), (''result'', JNull), (''error'', JString err),
              (''tool_name'', tool_name), (''duration_ms'', duration_ms)]"

text \<open>The dictionary \<^verbatim>\<open>execute\<close> returns when the confirmation is not given.\<close>

definition cancelled_result :: "json \<Rightarrow> json" where
  "cancelled_result tool_name =
     JObject [(''success'', JBool False), (''result'', JNull),
              (''error'', JString ''Action cancelled by user''),
              (''tool_name'', tool_name), (''cancelled'', JBool True)]"

text \<open>
  The prompt handed to the confirmation callback. It opens with the warning sign
  U+26A0 U+FE0F, written here as its UTF-8 bytes.
\<close>

definition confirm_prompt :: "'w env \<Rightarrow> json \<Rightarrow> (string \<times> json) list \<Rightarrow> string" where
  "confirm_prompt env tool_name kvs =
     (let args_str = str_join '', '' (map (\<lambda>(k, v). k @ ''='' @ take 60 (repr env v)) kvs)
      in [CHR 0xE2, CHR 0x9A, CHR 0xA0, CHR 0xEF, CHR 0xB8, CHR 0x8F]
         @ '' MAX wants to run: **'' @ py_str env tool_name @ ''**('' @ args_str @ '')''
         @ [CHR 0x0A] @ ''Confirm? (yes/no)'')"

text \<open>
  \<^verbatim>\<open>_request_confirmation\<close>. With a callback, \<^verbatim>\<open>arguments.items()\<close> is evaluated first
  and raises on anything but a dictionary; the callback's own exception is not caught.
  Without a callback the answer is \<open>False\<close>.
\<close>

definition request_confirmation ::
  "'w env \<Rightarrow> 'w ToolExecutor \<Rightarrow> json \<Rightarrow> json \<Rightarrow> 'w \<Rightarrow> (pyexc + bool) \<times> 'w" where
  "request_confirmation env ex tool_name arguments w =
     (case confirm_callback ex of
        Some cb \<Rightarrow>
          (case arguments of
             JObject kvs \<Rightarrow> cb (confirm_prompt env tool_name kvs) w
           | _ \<Rightarrow> (Inl (PyExc ''AttributeError'' ''object has no attribute items''), w))
      | None \<Rightarrow> (Inr False, w))"

text \<open>
  The \<^verbatim>\<open>try\<close> block of \<^verbatim>\<open>execute\<close>: the clock is read, the tool is called with
  \<^verbatim>\<open>**arguments\<close> (a \<^verbatim>\<open>TypeError\<close> when the arguments are not a mapping), the clock is
  read again for the duration in milliseconds, and in both outcomes one entry is appended
  to the audit log.
\<close>

definition run_tool ::
  "'w env \<Rightarrow> 'w ToolExecutor \<Rightarrow> 'w tool \<Rightarrow> json \<Rightarrow> json \<Rightarrow> string \<Rightarrow> 'w
     \<Rightarrow> json \<times> 'w ToolExecutor \<times> 'w" where
  "run_tool env ex tool tool_name arguments uid w =
     (let (start, w1) = utcnow env w;
          (outcome, w2) =
             (case arguments of
                JObject kvs \<Rightarrow> tool kvs w1
              | _ \<Rightarrow> (Inl (PyExc ''TypeError'' ''argument after ** must be a mapping''), w1));
          (fin, w3) = utcnow env w2;
          duration = JFloat (of_int (fin - start) / 1000)
      in case outcome of
           Inr result \<Rightarrow>
             (JObject [(''success'', JBool True), (''result'', JString result),
                       (''error'', JNull), (''tool_name'', tool_name),
                       (''duration_ms'', duration)],
              ex\<lparr>audit_log := audit_log ex @
                   [JObject [(''tool'', tool_name), (''arguments'', arguments),
                             (''user_id'', JString uid), (''success'', JBool True),
                             (''duration_ms'', duration),
                             (''timestamp'', JString (isoformat env start))]]\<rparr>,
              w3)
         | Inl (PyExc cls msg) \<Rightarrow>
             (error_result tool_name msg duration,
              ex\<lparr>audit_log := audit_log ex @
                   [JObject [(''tool'', tool_name), (''arguments'', arguments),
                             (''user_id'', JString uid), (''success'', JBool False),
                             (''error'', JString msg), (''duration_ms'', duration),
                             (''timestamp'', JString (isoformat env start))]]\<rparr>,
              w3))"

text \<open>
  \<^verbatim>\<open>ToolExecutor.execute\<close>. The result is \<open>Inl\<close> when an exception leaves the method,
  and \<open>Inr\<close> the returned dictionary otherwise.
\<close>

definition execute ::
  "'w env \<Rightarrow> 'w ToolExecutor \<Rightarrow> json \<Rightarrow> json \<Rightarrow> string \<Rightarrow> 'w
     \<Rightarrow> (pyexc + json) \<times> 'w ToolExecutor \<times> 'w" where
  "execute env ex tool_name arguments uid w =
     (case py_dict_get (tools (registry ex)) tool_name of
        Inl e \<Rightarrow> (Inl e, ex, w)
      | Inr None \<Rightarrow>
          (Inr (error_result tool_name
                  (''Unknown tool: '' @ [CHR 0x27] @ py_str env tool_name @ [CHR 0x27])
                  (JInt 0)),
           ex, w)
      | Inr (Some tool) \<Rightarrow>
          (case (if confirm_before_action ex
                 then requires_confirmation (registry ex) tool_name else Inr False) of
             Inl e \<Rightarrow> (Inl e, ex, w)
           | Inr needed \<Rightarrow>
               (case (if needed then request_confirmation env ex tool_name arguments w
                      else (Inr True, w)) of
                  (Inl e, w1) \<Rightarrow> (Inl e, ex, w1)
                | (Inr confirmed, w1) \<Rightarrow>
                    if \<not> confirmed then (Inr (cancelled_result tool_name), ex, w1)
                    else (let (res, ex', w2) = run_tool env ex tool tool_name arguments uid w1
                          in (Inr res, ex', w2)))))"

text \<open>\<^verbatim>\<open>get_audit_log\<close>: the slice \<^verbatim>\<open>self.audit_log[-limit:]\<close>.\<close>

definition get_audit_log :: "'w ToolExecutor \<Rightarrow> int \<Rightarrow> json list" where
  "get_audit_log ex limit = py_slice_from (audit_log ex) (- limit)"

section \<open>The memory store\<close>

text \<open>
  The table \<^verbatim>\<open>memories\<close> in rowid order, and the largest rowid ever given out
  (the column is \<^verbatim>\<open>AUTOINCREMENT\<close>). \<^verbatim>\<open>store\<close> and \<^verbatim>\<open>delete\<close> write the table and
  its full-text index together, so the index holds the rowid and the content of exactly
  the rows of the table.
\<close>

record MemoryStore =
  rows :: "Memory list"
  seq :: int

text \<open>\<^verbatim>\<open>LIMIT ?\<close>: a negative limit is no limit.\<close>

definition sql_limit :: "int \<Rightarrow> 'a list \<Rightarrow> 'a list" where
  "sql_limit n xs = (if n < 0 then xs else take (nat n) xs)"

text \<open>
  \<^verbatim>\<open>str.strip()\<close>, on the ASCII characters that Python counts as whitespace. A string
  is its bytes here, so a query is modelled as the code does it when it is ASCII text;
  whitespace beyond ASCII is not stripped and a character beyond ASCII counts for more
  than one.
\<close>

definition is_space :: "char \<Rightarrow> bool" where
  "is_space c = (c \<in> set [CHR 0x20, CHR 0x09, CHR 0x0A, CHR 0x0B, CHR 0x0C, CHR 0x0D,
                            CHR 0x1C, CHR 0x1D, CHR 0x1E, CHR 0x1F])"

definition strip :: "string \<Rightarrow> string" where
  "strip s = rev (dropWhile is_space (rev (dropWhile is_space s)))"

definition store ::
  "'w env \<Rightarrow> string \<Rightarrow> string \<Rightarrow> string list option \<Rightarrow> MemoryStore \<Rightarrow> 'w
     \<Rightarrow> int \<times> MemoryStore \<times> 'w" where
  "store env c uid tgs db w =
     (let (now, w1) = utcnow env w;
          memory_id = seq db + 1
      in (memory_id,
          db\<lparr>rows := rows db @
                 [\<lparr>id' = memory_id, content = c, user_id = uid,
                   tags = (case tgs of None \<Rightarrow> [] | Some ts \<Rightarrow> ts),
                   created_at = now, accessed_at = now, access_count = 0\<rparr>],
             seq := memory_id\<rparr>,
          w1))"

text \<open>\<^verbatim>\<open>_touch\<close>: one clock reading, one \<^verbatim>\<open>UPDATE ... WHERE id = ?\<close>.\<close>

definition touch :: "'w env \<Rightarrow> int \<Rightarrow> MemoryStore \<Rightarrow> 'w \<Rightarrow> MemoryStore \<times> 'w" where
  "touch env memory_id db w =
     (let (now, w1) = utcnow env w
      in (db\<lparr>rows := map (\<lambda>m. if id' m = memory_id
                                then m\<lparr>accessed_at := now, access_count := access_count m + 1\<rparr>
                                else m) (rows db)\<rparr>,
          w1))"

text \<open>The loop \<^verbatim>\<open>for m in memories: await self._touch(m.id)\<close>.\<close>

fun touch_all :: "'w env \<Rightarrow> Memory list \<Rightarrow> MemoryStore \<Rightarrow> 'w \<Rightarrow> MemoryStore \<times> 'w" where
  "touch_all env [] db w = (db, w)"
| "touch_all env (m # ms) db w =
     (let (db1, w1) = touch env (id' m) db w in touch_all env ms db1 w1)"

text \<open>
  \<^verbatim>\<open>_get_recent\<close>: the user's rows, most recently accessed first, cut at the limit.
  SQL leaves the order of rows with equal keys open; the model keeps them in rowid order.
\<close>

definition get_recent :: "string \<Rightarrow> int \<Rightarrow> MemoryStore \<Rightarrow> Memory list" where
  "get_recent uid limit db =
     sql_limit limit (sort_key (\<lambda>m. - accessed_at m) (filter (\<lambda>m. user_id m = uid) (rows db)))"

definition get_all :: "string \<Rightarrow> MemoryStore \<Rightarrow> Memory list" where
  "get_all uid db = sort_key (\<lambda>m. - created_at m) (filter (\<lambda>m. user_id m = uid) (rows db))"

definition delete :: "int \<Rightarrow> MemoryStore \<Rightarrow> MemoryStore" where
  "delete memory_id db = db\<lparr>rows := filter (\<lambda>m. id' m \<noteq> memory_id) (rows db)\<rparr>"

text \<open>
  The rows of the full-text query before the limit: the index's matches in rank order,
  joined with the table on the rowid, of the given user.
\<close>

definition fts_rows :: "int list \<Rightarrow> string \<Rightarrow> MemoryStore \<Rightarrow> Memory list" where
  "fts_rows rowids uid db =
     filter (\<lambda>m. user_id m = uid)
       (concat (map (\<lambda>i. filter (\<lambda>m. id' m = i) (rows db)) rowids))"

text \<open>The \<^verbatim>\<open>SELECT ... MATCH ? AND m.user_id = ? ORDER BY rank LIMIT ?\<close> of \<^verbatim>\<open>search\<close>.\<close>

definition fts_select ::
  "'w env \<Rightarrow> string \<Rightarrow> string \<Rightarrow> int \<Rightarrow> MemoryStore \<Rightarrow> pyexc + Memory list" where
  "fts_select env query uid limit db =
     (case fts_match env query (map (\<lambda>m. (id' m, content m)) (rows db)) of
        Inl e \<Rightarrow> Inl e
      | Inr rowids \<Rightarrow> Inr (sql_limit limit (fts_rows rowids uid db)))"

text \<open>\<^verbatim>\<open>any(t in m.tags for t in tags)\<close>.\<close>

definition shares_tag :: "string list \<Rightarrow> Memory \<Rightarrow> bool" where
  "shares_tag ts m = list_ex (\<lambda>t. t \<in> set (tags m)) ts"

text \<open>
  \<^verbatim>\<open>MemoryStore.search\<close>. The records returned are the ones read by the query; on the
  full-text path the rows of the table are touched afterwards.
\<close>

definition search ::
  "'w env \<Rightarrow> string \<Rightarrow> string \<Rightarrow> int \<Rightarrow> string list option \<Rightarrow> MemoryStore \<Rightarrow> 'w
     \<Rightarrow> (pyexc + Memory list) \<times> MemoryStore \<times> 'w" where
  "search env query uid limit tgs db w =
     (if length (strip query) < 3 then (Inr (get_recent uid limit db), db, w)
      else case fts_select env query uid limit db of
             Inl e \<Rightarrow> (Inl e, db, w)
           | Inr found \<Rightarrow>
               (let memories =
                      (case tgs of
                         None \<Rightarrow> found
                       | Some ts \<Rightarrow> if ts \<noteq> [] then filter (shares_tag ts) found else found);
                    (db1, w1) = touch_all env memories db w
                in (Inr memories, db1, w1)))"

section \<open>The agent\<close>

record Settings =
  agent_name :: string
  max_context_tokens :: int

text \<open>
  \<^verbatim>\<open>MAXAgent\<close>. The memory store, the executor and the client are present once
  \<open>initialized\<close> holds. The last two fields are not in the source: \<open>llm_calls\<close> counts
  the calls of \<^verbatim>\<open>_call_llm\<close>, the completion call that is given the system prompt, the
  tool schemas and the history, and \<open>llm_simple_calls\<close> counts the calls of
  \<^verbatim>\<open>_call_llm_simple\<close>, the single-turn call the agent makes for its own summaries.
\<close>

record 'w MAXAgent =
  settings :: Settings
  memory :: MemoryStore
  tool_executor :: "'w ToolExecutor"
  conversation_history :: "Message list"
  initialized :: bool
  llm_calls :: nat
  llm_simple_calls :: nat

definition MAX_ITERATIONS :: nat where
  "MAX_ITERATIONS = 15"

definition COMPACTION_THRESHOLD :: rat where
  "COMPACTION_THRESHOLD = 85 / 100"

definition apology :: string where
  "apology = ''I ran into trouble completing that task. Please try again.''"

text \<open>\<^verbatim>\<open>Message(role=..., content=..., metadata=...)\<close>: the timestamp is read from the clock.\<close>

definition new_message ::
  "'w env \<Rightarrow> string \<Rightarrow> string \<Rightarrow> (string \<times> json) list \<Rightarrow> 'w \<Rightarrow> Message \<times> 'w" where
  "new_message env r c meta w =
     (let (now, w1) = utcnow env w
      in (\<lparr>role = r, content' = c, timestamp = now, metadata = meta\<rparr>, w1))"

definition history_to_messages :: "Message list \<Rightarrow> (string \<times> string) list" where
  "history_to_messages history =
     map (\<lambda>msg. if role msg = ''tool_result''
                 then (''user'', ''[Tool Result]: '' @ content' msg)
                 else (role msg, content' msg))
       (py_slice_from history (- 40))"

definition call_llm ::
  "'w env \<Rightarrow> string \<Rightarrow> 'w MAXAgent \<Rightarrow> 'w \<Rightarrow> (pyexc + string option) \<times> 'w MAXAgent \<times> 'w" where
  "call_llm env sp ag w =
     (let (response, w1) = llm_create env sp (history_to_messages (conversation_history ag)) w
      in (response, ag\<lparr>llm_calls := Suc (llm_calls ag)\<rparr>, w1))"

definition call_llm_simple ::
  "'w env \<Rightarrow> string \<Rightarrow> 'w MAXAgent \<Rightarrow> 'w \<Rightarrow> (pyexc + string) \<times> 'w MAXAgent \<times> 'w" where
  "call_llm_simple env prompt ag w =
     (let (response, w1) = llm_create_simple env prompt w
      in (response, ag\<lparr>llm_simple_calls := Suc (llm_simple_calls ag)\<rparr>, w1))"

text \<open>
  \<^verbatim>\<open>_extract_tool_calls\<close>. \<^verbatim>\<open>json.loads\<close> raises \<^verbatim>\<open>TypeError\<close> on \<^verbatim>\<open>None\<close>. Of the
  exceptions it raises on a string, the \<^verbatim>\<open>except\<close> clause catches the two classes it
  names and lets every other one through. The \<^verbatim>\<open>AttributeError\<close> of \<^verbatim>\<open>.get\<close> on a
  parsed value that is not a dictionary is caught too. The value of the key
  \<^verbatim>\<open>tool_calls\<close> is returned as it is, whatever its type.
\<close>

definition extract_tool_calls :: "'w env \<Rightarrow> string option \<Rightarrow> pyexc + json" where
  "extract_tool_calls env raw_response =
     (case raw_response of
        None \<Rightarrow>
          Inl (PyExc ''TypeError''
                 ''the JSON object must be str, bytes or bytearray, not NoneType'')
      | Some s \<Rightarrow>
          (case json_loads env s of
             Inl (PyExc cls msg) \<Rightarrow>
               if cls = ''JSONDecodeError'' \<or> cls = ''AttributeError'' then Inr (JArray [])
               else Inl (PyExc cls msg)
           | Inr (JObject kvs) \<Rightarrow> Inr (dict_get kvs ''tool_calls'' (JArray []))
           | Inr v \<Rightarrow> Inr (JArray [])))"

text \<open>
  \<^verbatim>\<open>for x in v\<close>: the elements of a list, the keys of a dictionary, the characters of a
  string; any other value is not iterable.
\<close>

fun py_iter :: "json \<Rightarrow> pyexc + json list" where
  "py_iter (JArray xs) = Inr xs"
| "py_iter (JObject kvs) = Inr (map (\<lambda>(k, v). JString k) kvs)"
| "py_iter (JString s) = Inr (map (\<lambda>c. JString [c]) s)"
| "py_iter v = Inl (PyExc ''TypeError'' ''object is not iterable'')"

text \<open>
  The loop \<^verbatim>\<open>for tool_call in tool_calls\<close> of \<^verbatim>\<open>process_message\<close>: \<^verbatim>\<open>.get\<close> raises on a
  call that is not a dictionary; each call goes through the executor and leaves two
  entries in the history.
\<close>

fun run_tool_calls ::
  "'w env \<Rightarrow> string \<Rightarrow> json list \<Rightarrow> string list \<Rightarrow> 'w MAXAgent \<Rightarrow> 'w
     \<Rightarrow> (pyexc + string list) \<times> 'w MAXAgent \<times> 'w" where
  "run_tool_calls env uid [] actions ag w = (Inr actions, ag, w)"
| "run_tool_calls env uid (tool_call # rest) actions ag w =
     (case tool_call of
        JObject kvs \<Rightarrow>
          (let tool_name = dict_get kvs ''name'' JNull;
               tool_args = dict_get kvs ''arguments'' (JObject [])
           in case execute env (tool_executor ag) tool_name tool_args uid w of
                (Inl e, ex1, w1) \<Rightarrow> (Inl e, ag\<lparr>tool_executor := ex1\<rparr>, w1)
              | (Inr tool_result, ex1, w1) \<Rightarrow>
                  (let actions1 = actions @
                         [py_str env tool_name @ '': '' @ take 80 (py_str env tool_args)];
                       (m1, w2) = new_message env ''assistant'' (json_dumps env tool_call)
                                    [(''type'', JString ''tool_call'')] w1;
                       (m2, w3) = new_message env ''tool_result'' (json_dumps env tool_result)
                                    [(''tool_name'', tool_name)] w2
                   in run_tool_calls env uid rest actions1
                        (ag\<lparr>tool_executor := ex1,
                            conversation_history := conversation_history ag @ [m1, m2]\<rparr>)
                        w3))
      | _ \<Rightarrow> (Inl (PyExc ''AttributeError'' ''object has no attribute get''), ag, w))"

text \<open>
  The \<^verbatim>\<open>while iterations < self.MAX_ITERATIONS\<close> loop. It returns \<^verbatim>\<open>final_response\<close>,
  which is still \<^verbatim>\<open>None\<close> when the loop ends because the counter reached the cap, and
  \<^verbatim>\<open>actions_taken\<close>.
\<close>

function react_loop ::
  "'w env \<Rightarrow> string \<Rightarrow> string \<Rightarrow> nat \<Rightarrow> string list \<Rightarrow> 'w MAXAgent \<Rightarrow> 'w
     \<Rightarrow> (pyexc + string option \<times> string list) \<times> 'w MAXAgent \<times> 'w" where
  "react_loop env sp uid iterations actions ag w =
     (if iterations < MAX_ITERATIONS then
        (case call_llm env sp ag w of
           (Inl e, ag1, w1) \<Rightarrow> (Inl e, ag1, w1)
         | (Inr raw_response, ag1, w1) \<Rightarrow>
             (case extract_tool_calls env raw_response of
                Inl e \<Rightarrow> (Inl e, ag1, w1)
              | Inr tool_calls \<Rightarrow>
                  if \<not> truthy tool_calls then (Inr (raw_response, actions), ag1, w1)
                  else (case py_iter tool_calls of
                          Inl e \<Rightarrow> (Inl e, ag1, w1)
                        | Inr calls \<Rightarrow>
                            (case run_tool_calls env uid calls actions ag1 w1 of
                               (Inl e, ag2, w2) \<Rightarrow> (Inl e, ag2, w2)
                             | (Inr actions1, ag2, w2) \<Rightarrow>
                                 react_loop env sp uid (iterations + 1) actions1 ag2 w2))))
      else (Inr (None, actions), ag, w))"
  by pat_completeness auto
termination
  by (relation "measure (\<lambda>(env, sp, uid, iterations, actions, ag, w). MAX_ITERATIONS - iterations)")
     auto

declare react_loop.simps [simp del]

text \<open>
  \<^verbatim>\<open>_should_compact\<close>: four characters to a token, against the configured budget. A
  budget of zero raises \<^verbatim>\<open>ZeroDivisionError\<close>.
\<close>

definition should_compact :: "'w MAXAgent \<Rightarrow> pyexc + bool" where
  "should_compact ag =
     (let total_chars = sum_list (map (\<lambda>m. int (length (content' m))) (conversation_history ag));
          limit = max_context_tokens (settings ag)
      in if limit = 0 then Inl (PyExc ''ZeroDivisionError'' ''float division by zero'')
         else Inr (of_int total_chars / 4 / of_int limit > COMPACTION_THRESHOLD))"

definition summary_prompt :: "Message list \<Rightarrow> string" where
  "summary_prompt old_messages =
     ''Summarize the following conversation history concisely, ''
     @ ''preserving all key facts, decisions, and outcomes:'' @ [CHR 0x0A, CHR 0x0A]
     @ str_join [CHR 0x0A] (map (\<lambda>m. role m @ '': '' @ content' m) old_messages)"

text \<open>
  \<^verbatim>\<open>_compact_context\<close>. An exception of the summarising call leaves the history as it
  was.
\<close>

definition compact_context ::
  "'w env \<Rightarrow> string \<Rightarrow> 'w MAXAgent \<Rightarrow> 'w \<Rightarrow> (pyexc + unit) \<times> 'w MAXAgent \<times> 'w" where
  "compact_context env uid ag w =
     (if length (conversation_history ag) \<le> 10 then (Inr (), ag, w)
      else
        (let old_messages = py_slice_to (conversation_history ag) (- 10);
             recent_messages = py_slice_from (conversation_history ag) (- 10)
         in case call_llm_simple env (summary_prompt old_messages) ag w of
              (Inl e, ag1, w1) \<Rightarrow> (Inl e, ag1, w1)
            | (Inr summary, ag1, w1) \<Rightarrow>
                (let (m, w2) = new_message env ''assistant'' (''[Context summary]: '' @ summary) [] w1;
                     (memory_id, db1, w3) =
                        store env summary uid (Some [''context_summary'']) (memory ag1) w2
                 in (Inr (),
                     ag1\<lparr>conversation_history := m # recent_messages, memory := db1\<rparr>,
                     w3))))"

definition check_prompt :: "string \<Rightarrow> string \<Rightarrow> string" where
  \<open>check_prompt user_input response =
     ''Analyze this exchange:'' @ [CHR 0x0A]
     @ ''User: '' @ user_input @ [CHR 0x0A]
     @ ''MAX: '' @ response @ [CHR 0x0A, CHR 0x0A]
     @ ''If this contains information worth remembering long-term (preferences, facts about the user, ''
     @ [CHR 0x0A]
     @ ''important decisions, contact info, etc.), respond with a JSON object:'' @ [CHR 0x0A]
     @ ''{"should_store": true, "content": "concise memory to store", "tags": ["tag1", "tag2"]}''
     @ [CHR 0x0A, CHR 0x0A]
     @ ''If nothing is worth storing, respond with: {"should_store": false}''\<close>

text \<open>
  The argument \<^verbatim>\<open>tags\<close> of \<^verbatim>\<open>store\<close>, a list of strings; \<^verbatim>\<open>tags or []\<close> makes
  every falsy value the empty list.
\<close>

fun string_list :: "json \<Rightarrow> string list option" where
  "string_list (JArray []) = Some []"
| "string_list (JArray (JString s # vs)) = map_option ((#) s) (string_list (JArray vs))"
| "string_list v = None"

definition tags_arg :: "json \<Rightarrow> string list option" where
  "tags_arg v = (if truthy v then string_list v else Some [])"

text \<open>
  \<^verbatim>\<open>_maybe_memorize\<close>. Everything runs inside \<^verbatim>\<open>try ... except Exception\<close>, so the
  exception of the backend, of \<^verbatim>\<open>json.loads\<close>, of \<^verbatim>\<open>.get\<close> on a value that is not a
  dictionary and of the missing key \<^verbatim>\<open>content\<close> all end the step silently. The store
  is modelled on the types it declares, a text and a list of strings; a suggestion of any
  other shape is treated as one the store refuses.
\<close>

definition maybe_memorize ::
  "'w env \<Rightarrow> string \<Rightarrow> string \<Rightarrow> string \<Rightarrow> 'w MAXAgent \<Rightarrow> 'w \<Rightarrow> 'w MAXAgent \<times> 'w" where
  "maybe_memorize env user_input response uid ag w =
     (case call_llm_simple env (check_prompt user_input response) ag w of
        (Inl e, ag1, w1) \<Rightarrow> (ag1, w1)
      | (Inr result_str, ag1, w1) \<Rightarrow>
          (case json_loads env result_str of
             Inr (JObject kvs) \<Rightarrow>
               if truthy (dict_get kvs ''should_store'' JNull) then
                 (case (map_of kvs ''content'', tags_arg (dict_get kvs ''tags'' (JArray []))) of
                    (Some (JString c), Some ts) \<Rightarrow>
                      (let (memory_id, db1, w2) = store env c uid (Some ts) (memory ag1) w1
                       in (ag1\<lparr>memory := db1\<rparr>, w2))
                  | _ \<Rightarrow> (ag1, w1))
               else (ag1, w1)
           | _ \<Rightarrow> (ag1, w1)))"

text \<open>
  \<^verbatim>\<open>process_message\<close> up to the loop: the guard, the memory search, the system prompt,
  the user's message and the compaction check. It gives the system prompt and the
  memories found.
\<close>

definition prepare_turn ::
  "'w env \<Rightarrow> string \<Rightarrow> string \<Rightarrow> 'w MAXAgent \<Rightarrow> 'w
     \<Rightarrow> (pyexc + string \<times> Memory list) \<times> 'w MAXAgent \<times> 'w" where
  "prepare_turn env user_input uid ag w =
     (if \<not> initialized ag
      then (Inl (PyExc ''RuntimeError'' ''Agent not initialized. Call initialize() first.''), ag, w)
      else case search env user_input uid 5 None (memory ag) w of
             (Inl e, db1, w1) \<Rightarrow> (Inl e, ag\<lparr>memory := db1\<rparr>, w1)
           | (Inr relevant_memories, db1, w1) \<Rightarrow>
               (let ag1 = ag\<lparr>memory := db1\<rparr>;
                    (sp, w2) = system_prompt env (agent_name (settings ag1)) relevant_memories w1;
                    (m, w3) = new_message env ''user'' user_input [] w2;
                    ag2 = ag1\<lparr>conversation_history := conversation_history ag1 @ [m]\<rparr>
                in case should_compact ag2 of
                     Inl e \<Rightarrow> (Inl e, ag2, w3)
                   | Inr False \<Rightarrow> (Inr (sp, relevant_memories), ag2, w3)
                   | Inr True \<Rightarrow>
                       (case compact_context env uid ag2 w3 of
                          (Inl e, ag3, w4) \<Rightarrow> (Inl e, ag3, w4)
                        | (Inr u, ag3, w4) \<Rightarrow> (Inr (sp, relevant_memories), ag3, w4))))"

text \<open>
  \<^verbatim>\<open>process_message\<close> after the loop: the apology when there is no final response, the
  assistant's message, the memorize check and the response.
\<close>

definition finish_turn ::
  "'w env \<Rightarrow> string \<Rightarrow> string \<Rightarrow> Memory list \<Rightarrow> string option \<Rightarrow> string list
     \<Rightarrow> 'w MAXAgent \<Rightarrow> 'w \<Rightarrow> AgentResponse \<times> 'w MAXAgent \<times> 'w" where
  "finish_turn env user_input uid relevant_memories final_response actions ag w =
     (let final = (case final_response of
                     None \<Rightarrow> apology
                   | Some s \<Rightarrow> if s = [] then apology else s);
          (m, w1) = new_message env ''assistant'' final [] w;
          ag1 = ag\<lparr>conversation_history := conversation_history ag @ [m]\<rparr>;
          (ag2, w2) = maybe_memorize env user_input final uid ag1 w1
      in (\<lparr>text' = final, actions_taken = actions,
            memories_used = map (\<lambda>m. take 60 (content m)) relevant_memories,
            error = None\<rparr>,
          ag2, w2))"

definition process_message ::
  "'w env \<Rightarrow> string \<Rightarrow> string \<Rightarrow> 'w MAXAgent \<Rightarrow> 'w
     \<Rightarrow> (pyexc + AgentResponse) \<times> 'w MAXAgent \<times> 'w" where
  "process_message env user_input uid ag w =
     (case prepare_turn env user_input uid ag w of
        (Inl e, ag1, w1) \<Rightarrow> (Inl e, ag1, w1)
      | (Inr (sp, relevant_memories), ag1, w1) \<Rightarrow>
          (case react_loop env sp uid 0 [] ag1 w1 of
             (Inl e, ag2, w2) \<Rightarrow> (Inl e, ag2, w2)
           | (Inr (final_response, actions), ag2, w2) \<Rightarrow>
               (let (response, ag3, w3) =
                      finish_turn env user_input uid relevant_memories final_response actions ag2 w2
                in (Inr response, ag3, w3))))"

section \<open>Concrete stores, registries and environments\<close>

text \<open>
  The instances the theorems below are evaluated at. Their full-text index answers a
  query that is one bare word (letters, digits and underscores, and not one of the
  operators) with the rows whose content contains the word, in rowid order, and rejects
  every other query with the syntax error of the index; the contents of the instances are
  whole words. Their \<open>json_loads\<close> parses nothing unless an instance says what.
  \<open>count_env\<close> has a world that counts the tool invocations; \<open>clock_env\<close> has a world
  that is the clock, advancing by one at each reading.
\<close>

definition occurs_in :: "string \<Rightarrow> string \<Rightarrow> bool" where
  "occurs_in q c = list_ex (\<lambda>i. take (length q) (drop i c) = q) [0..<Suc (length c)]"

definition bareword :: "string \<Rightarrow> bool" where
  "bareword q =
     (q \<noteq> []
      \<and> list_all (\<lambda>c. c \<in> set ''abcdefghijklmnopqrstuvwxyzABCDEFGHIJKLMNOPQRSTUVWXYZ0123456789_'') q
      \<and> q \<noteq> ''AND'' \<and> q \<noteq> ''OR'' \<and> q \<noteq> ''NOT'')"

definition word_index :: "string \<Rightarrow> (int \<times> string) list \<Rightarrow> pyexc + int list" where
  "word_index q indexed =
     (if bareword q then Inr (map fst (filter (\<lambda>(i, c). occurs_in q c) indexed))
      else Inl (PyExc ''OperationalError'' ''fts5: syntax error''))"

definition not_json :: "string \<Rightarrow> pyexc + json" where
  "not_json s = Inl (PyExc ''JSONDecodeError'' ''Expecting value'')"

definition count_env :: "nat env" where
  "count_env = \<lparr>json_loads = not_json, json_dumps = (\<lambda>v. []), repr = (\<lambda>v. ''?''),
     isoformat = (\<lambda>t. []), utcnow = (\<lambda>w. (0, w)), fts_match = word_index,
     llm_create = (\<lambda>sp ms w. (Inr None, w)), llm_create_simple = (\<lambda>p w. (Inr [], w)),
     system_prompt = (\<lambda>n ms w. ([], w))\<rparr>"

definition delete_file :: "nat tool" where
  "delete_file kvs w = (Inr ''Deleted'', Suc w)"

definition files_registry :: "nat ToolRegistry" where
  "files_registry = \<lparr>tools = [''files__delete_file'' \<mapsto> delete_file],
     tool_metadata = [''files__delete_file'' \<mapsto>
        \<lparr>skill = ''files'', description = ''Delete a file permanently.'',
         confirm_required = True\<rparr>]\<rparr>"

definition files_executor :: "nat callback option \<Rightarrow> nat ToolExecutor" where
  "files_executor cb = \<lparr>registry = files_registry, confirm_before_action = True,
     confirm_callback = cb, audit_log = []\<rparr>"

definition clock_env :: "int env" where
  "clock_env = \<lparr>json_loads = not_json, json_dumps = (\<lambda>v. []), repr = (\<lambda>v. []),
     isoformat = (\<lambda>t. []), utcnow = (\<lambda>w. (w, w + 1)),
     fts_match = word_index,
     llm_create = (\<lambda>sp ms w. (Inr None, w)), llm_create_simple = (\<lambda>p w. (Inr [], w)),
     system_prompt = (\<lambda>n ms w. ([], w))\<rparr>"

definition tea_note :: Memory where
  "tea_note = \<lparr>id' = 1, content = ''tea'', user_id = ''alice'', tags = [''work''],
     created_at = 10, accessed_at = 10, access_count = 0\<rparr>"

definition tea_pot :: Memory where
  "tea_pot = \<lparr>id' = 2, content = ''tea pot'', user_id = ''alice'', tags = [''home''],
     created_at = 20, accessed_at = 20, access_count = 0\<rparr>"

definition tea_bag :: Memory where
  "tea_bag = \<lparr>id' = 3, content = ''tea bag'', user_id = ''bob'', tags = [''home''],
     created_at = 30, accessed_at = 30, access_count = 0\<rparr>"

definition tea_cup :: Memory where
  "tea_cup = \<lparr>id' = 4, content = ''tea cup'', user_id = ''alice'', tags = [''home''],
     created_at = 40, accessed_at = 40, access_count = 0\<rparr>"

definition tea_store :: MemoryStore where
  "tea_store = \<lparr>rows = [tea_note, tea_pot, tea_bag, tea_cup], seq = 4\<rparr>"

text \<open>
  An agent in the middle of a conversation, over the store above and an empty registry,
  and a backend whose single-turn call answers with a fixed summary.
\<close>

definition summary_env :: "int env" where
  "summary_env = clock_env\<lparr>llm_create_simple := (\<lambda>p w. (Inr ''They talked about tea.'', w))\<rparr>"

definition note_msg :: "int \<Rightarrow> Message" where
  "note_msg i = \<lparr>role = ''user'', content' = ''more tea'', timestamp = i, metadata = []\<rparr>"

definition chat_agent :: "Message list \<Rightarrow> 'w MAXAgent" where
  "chat_agent h =
     \<lparr>settings = \<lparr>agent_name = ''MAX'', max_context_tokens = 80000\<rparr>,
      memory = tea_store,
      tool_executor = \<lparr>registry = \<lparr>tools = Map.empty, tool_metadata = Map.empty\<rparr>,
                        confirm_before_action = True, confirm_callback = None, audit_log = []\<rparr>,
      conversation_history = h, initialized = True, llm_calls = 0, llm_simple_calls = 0\<rparr>"

text \<open>
  A backend whose every response is a JSON object with the number 5 under the key
  \<^verbatim>\<open>tool_calls\<close>.
\<close>

definition tool_calls_five :: string where
  \<open>tool_calls_five = ''{"tool_calls": 5}''\<close>

definition payload_env :: "int env" where
  "payload_env = clock_env
     \<lparr>json_loads := (\<lambda>s. if s = tool_calls_five then Inr (JObject [(''tool_calls'', JInt 5)])
                          else not_json s),
      llm_create := (\<lambda>sp ms w. (Inr (Some tool_calls_five), w))\<rparr>"







section \<open>The audit log\<close>

text \<open>
  C9. Calling \<^verbatim>\<open>get_audit_log\<close> with a limit of 0 returns the entire audit log, not the
  empty list of the zero most recent entries: the slice \<^verbatim>\<open>[-0:]\<close> is the whole list.
\<close>

theorem get_audit_log_zero_is_whole_log: "get_audit_log ex 0 = audit_log ex"
  by (simp add: get_audit_log_def py_slice_from_def slice_index_def)

section \<open>Confirmation in the executor\<close>

text \<open>
  C6. For a registered tool that requires confirmation, with confirmation enabled, if the
  wired callback answers \<open>False\<close> then \<^verbatim>\<open>execute\<close> returns the dictionary with
  \<^verbatim>\<open>success\<close> false, \<^verbatim>\<open>cancelled\<close> true and the error \<^verbatim>\<open>Action cancelled by user\<close>
  (beside \<^verbatim>\<open>result\<close> \<^verbatim>\<open>None\<close> and the tool's name). The tool is never invoked: whatever
  the tool is, the world is the one the callback left and the audit log is untouched.
\<close>

theorem execute_cancelled_by_callback:
  assumes "tools (registry ex) n = Some tool"
      and "confirm_before_action ex"
      and "tool_metadata (registry ex) n = Some meta"
      and "confirm_required meta"
      and "confirm_callback ex = Some cb"
      and "cb (confirm_prompt env (JString n) kvs) w = (Inr False, w')"
    shows "execute env ex (JString n) (JObject kvs) uid w =
             (Inr (JObject [(''success'', JBool False), (''result'', JNull),
                            (''error'', JString ''Action cancelled by user''),
                            (''tool_name'', JString n), (''cancelled'', JBool True)]),
              ex, w')"
  using assms
  by (simp add: execute_def requires_confirmation_def request_confirmation_def
      cancelled_result_def)

text \<open>
  The tool of the instance counts its invocations in the world: the count stays 0.
\<close>

theorem execute_cancelled_by_callback_witness:
  "execute count_env (files_executor (Some (\<lambda>p w. (Inr False, w))))
     (JString ''files__delete_file'') (JObject [(''path'', JString ''a.txt'')]) ''default'' 0
   = (Inr (JObject [(''success'', JBool False), (''result'', JNull),
                    (''error'', JString ''Action cancelled by user''),
                    (''tool_name'', JString ''files__delete_file''),
                    (''cancelled'', JBool True)]),
      files_executor (Some (\<lambda>p w. (Inr False, w))), 0)"
  by (rule execute_cancelled_by_callback
        [where tool = delete_file and cb = "\<lambda>p w. (Inr False, w)"
           and meta = "\<lparr>skill = ''files'', description = ''Delete a file permanently.'',
                        confirm_required = True\<rparr>"])
     (simp_all add: files_executor_def files_registry_def)

text \<open>
  C2, as stated: with no callback wired the result would carry \<^verbatim>\<open>cancelled\<close> false. It
  does not: the denial of \<^verbatim>\<open>_request_confirmation\<close> goes through the same branch as the
  user's refusal.
\<close>

theorem execute_without_callback_counterexample:
  "\<not> (\<exists>d. fst (execute count_env (files_executor None) (JString ''files__delete_file'')
                  (JObject [(''path'', JString ''a.txt'')]) ''default'' 0) = Inr (JObject d)
          \<and> map_of d ''cancelled'' = Some (JBool False) \<and> map_of d ''success'' = Some (JBool False))"
  by (simp add: execute_def requires_confirmation_def request_confirmation_def
      files_executor_def files_registry_def cancelled_result_def)

text \<open>
  C2, amended. For a registered tool that requires confirmation, with confirmation
  enabled and no callback wired, \<^verbatim>\<open>execute\<close> returns the dictionary with \<^verbatim>\<open>success\<close>
  false, \<^verbatim>\<open>cancelled\<close> true and the error \<^verbatim>\<open>Action cancelled by user\<close>, whatever the
  arguments are, and never invokes the tool: the world and the audit log are unchanged.
\<close>

theorem execute_without_callback_cancels:
  assumes "tools (registry ex) n = Some tool"
      and "confirm_before_action ex"
      and "tool_metadata (registry ex) n = Some meta"
      and "confirm_required meta"
      and "confirm_callback ex = None"
    shows "execute env ex (JString n) arguments uid w =
             (Inr (JObject [(''success'', JBool False), (''result'', JNull),
                            (''error'', JString ''Action cancelled by user''),
                            (''tool_name'', JString n), (''cancelled'', JBool True)]),
              ex, w)"
  using assms
  by (simp add: execute_def requires_confirmation_def request_confirmation_def
      cancelled_result_def)

theorem execute_without_callback_cancels_witness:
  "execute count_env (files_executor None)
     (JString ''files__delete_file'') (JObject [(''path'', JString ''a.txt'')]) ''default'' 0
   = (Inr (JObject [(''success'', JBool False), (''result'', JNull),
                    (''error'', JString ''Action cancelled by user''),
                    (''tool_name'', JString ''files__delete_file''),
                    (''cancelled'', JBool True)]),
      files_executor None, 0)"
  by (rule execute_without_callback_cancels
        [where tool = delete_file
           and meta = "\<lparr>skill = ''files'', description = ''Delete a file permanently.'',
                        confirm_required = True\<rparr>"])
     (simp_all add: files_executor_def files_registry_def)

section \<open>Exceptions at the executor's boundary\<close>

lemma run_tool_returns_dict:
  "\<exists>d ex' w' b. run_tool env ex tool tool_name arguments uid w = (JObject d, ex', w')
      \<and> map_of d ''success'' = Some (JBool b)"
  by (auto simp: run_tool_def error_result_def Let_def split: prod.splits sum.splits pyexc.splits)

text \<open>
  C3, as stated: no exception leaves \<^verbatim>\<open>execute\<close>. The confirmation callback is awaited
  outside the \<^verbatim>\<open>try\<close> block, so its exception does: here the callback raises
  \<^verbatim>\<open>EOFError\<close>, as \<^verbatim>\<open>input()\<close> does on a closed terminal.
\<close>

theorem execute_callback_raises_counterexample:
  "fst (execute count_env
          (files_executor (Some (\<lambda>p w. (Inl (PyExc ''EOFError'' ''EOF when reading a line''), w))))
          (JString ''files__delete_file'') (JObject [(''path'', JString ''a.txt'')]) ''default'' 0)
   = Inl (PyExc ''EOFError'' ''EOF when reading a line'')"
  by (simp add: execute_def requires_confirmation_def request_confirmation_def
      files_executor_def files_registry_def)

text \<open>
  C3, amended. For every name, argument mapping and user: when the name is not registered,
  \<^verbatim>\<open>execute\<close> returns the dictionary with \<^verbatim>\<open>success\<close> false and the error
  \<^verbatim>\<open>Unknown tool: '<name>'\<close>, and neither a tool nor the callback is invoked (the world
  and the audit log are unchanged); and whenever the confirmation callback, if one is wired,
  answers without raising, \<^verbatim>\<open>execute\<close> returns a dictionary with a boolean \<^verbatim>\<open>success\<close>
  and no exception leaves it, whatever the tool does.
\<close>

theorem execute_returns_dict_if_callback_returns:
  "(tools (registry ex) n = None \<longrightarrow>
      execute env ex (JString n) arguments uid w =
        (Inr (JObject [(''success'', JBool False), (''result'', JNull),
                       (''error'', JString (''Unknown tool: '' @ [CHR 0x27] @ n @ [CHR 0x27])),
                       (''tool_name'', JString n), (''duration_ms'', JInt 0)]),
         ex, w))
   \<and> ((\<forall>cb. confirm_callback ex = Some cb \<longrightarrow>
          (\<exists>b. fst (cb (confirm_prompt env (JString n) kvs) w) = Inr b)) \<longrightarrow>
        (\<exists>d ex' w' b. execute env ex (JString n) (JObject kvs) uid w = (Inr (JObject d), ex', w')
           \<and> map_of d ''success'' = Some (JBool b)))"
proof (intro conjI impI)
  assume "tools (registry ex) n = None"
  then show "execute env ex (JString n) arguments uid w =
        (Inr (JObject [(''success'', JBool False), (''result'', JNull),
                       (''error'', JString (''Unknown tool: '' @ [CHR 0x27] @ n @ [CHR 0x27])),
                       (''tool_name'', JString n), (''duration_ms'', JInt 0)]),
         ex, w)"
    by (simp add: execute_def error_result_def py_str_def)
next
  assume cb: "\<forall>cb. confirm_callback ex = Some cb \<longrightarrow>
          (\<exists>b. fst (cb (confirm_prompt env (JString n) kvs) w) = Inr b)"
  have conf: "\<exists>b w1. request_confirmation env ex (JString n) (JObject kvs) w = (Inr b, w1)"
  proof (cases "confirm_callback ex")
    case None
    then show ?thesis by (auto simp: request_confirmation_def)
  next
    case (Some f)
    with cb obtain b where "fst (f (confirm_prompt env (JString n) kvs) w) = Inr b" by blast
    then show ?thesis using Some
      by (cases "f (confirm_prompt env (JString n) kvs) w") (simp add: request_confirmation_def)
  qed
  show "\<exists>d ex' w' b. execute env ex (JString n) (JObject kvs) uid w = (Inr (JObject d), ex', w')
           \<and> map_of d ''success'' = Some (JBool b)"
  proof (cases "tools (registry ex) n")
    case None
    then show ?thesis by (auto simp: execute_def error_result_def)
  next
    case (Some tool)
    obtain b w1 where rc: "request_confirmation env ex (JString n) (JObject kvs) w = (Inr b, w1)"
      using conf by blast
    have "\<exists>needed. (if confirm_before_action ex
                 then requires_confirmation (registry ex) (JString n) else Inr False) = Inr needed"
      by (cases "tool_metadata (registry ex) n") (auto simp: requires_confirmation_def)
    then obtain needed where nd: "(if confirm_before_action ex
                 then requires_confirmation (registry ex) (JString n) else Inr False) = Inr needed"
      by blast
    show ?thesis
    proof (cases "needed \<and> \<not> b")
      case True
      then show ?thesis using Some rc nd
        by (auto simp: execute_def cancelled_result_def)
    next
      case False
      obtain w2 where w2: "w2 = (if needed then w1 else w)" by simp
      obtain d ex' w' c where rt: "run_tool env ex tool (JString n) (JObject kvs) uid w2 = (JObject d, ex', w')"
          "map_of d ''success'' = Some (JBool c)"
        using run_tool_returns_dict [of env ex tool "JString n" "JObject kvs" uid w2] by blast
      show ?thesis using Some rc nd False rt w2
        by (auto simp: execute_def)
    qed
  qed
qed

theorem execute_returns_dict_if_callback_returns_witness:
  "execute count_env (files_executor None) (JString ''files__rename'') (JObject []) ''default'' 0 =
        (Inr (JObject [(''success'', JBool False), (''result'', JNull),
                       (''error'', JString (''Unknown tool: '' @ [CHR 0x27] @ ''files__rename'' @ [CHR 0x27])),
                       (''tool_name'', JString ''files__rename''), (''duration_ms'', JInt 0)]),
         files_executor None, 0)
   \<and> (\<exists>d ex' w' b. execute count_env (files_executor (Some (\<lambda>p w. (Inr True, w))))
          (JString ''files__delete_file'') (JObject [(''path'', JString ''a.txt'')]) ''default'' 0 = (Inr (JObject d), ex', w')
           \<and> map_of d ''success'' = Some (JBool b))"
proof -
  have unknown: "tools (registry (files_executor None)) ''files__rename'' = None"
    by (simp add: files_executor_def files_registry_def)
  have returns: "\<forall>cb. confirm_callback (files_executor (Some (\<lambda>p w. (Inr True, w)))) = Some cb \<longrightarrow>
          (\<exists>b. fst (cb (confirm_prompt count_env (JString ''files__delete_file'')
                          [(''path'', JString ''a.txt'')]) 0) = Inr b)"
    by (auto simp: files_executor_def)
  show ?thesis
    using execute_returns_dict_if_callback_returns
            [of "files_executor None" "''files__rename''" count_env "JObject []" "''default''" 0 "[]",
             THEN conjunct1, THEN mp, OF unknown]
          execute_returns_dict_if_callback_returns
            [of "files_executor (Some (\<lambda>p w. (Inr True, w)))" "''files__delete_file''" count_env
                "JObject []" "''default''" 0 "[(''path'', JString ''a.txt'')]",
             THEN conjunct2, THEN mp, OF returns]
    by simp
qed

section \<open>The memory store: scoping, the limit and the access statistics\<close>

lemma set_sql_limit: "set (sql_limit n xs) \<subseteq> set xs"
  by (simp add: sql_limit_def set_take_subset)

lemma in_sql_limit: "m \<in> set (sql_limit n ys) \<Longrightarrow> m \<in> set ys"
  using set_sql_limit [of n ys] by (rule subsetD)

lemma get_recent_rows:
  assumes "m \<in> set (get_recent uid limit db)"
  shows "m \<in> set (rows db) \<and> user_id m = uid"
proof -
  have "m \<in> set (sort_key (\<lambda>m. - accessed_at m) (filter (\<lambda>m. user_id m = uid) (rows db)))"
    using assms unfolding get_recent_def by (rule in_sql_limit)
  then have "m \<in> set (filter (\<lambda>m. user_id m = uid) (rows db))"
    by (simp only: set_sort)
  then show ?thesis by (simp only: set_filter mem_Collect_eq)
qed

lemma get_all_rows:
  assumes "m \<in> set (get_all uid db)"
  shows "m \<in> set (rows db) \<and> user_id m = uid"
proof -
  have "m \<in> set (filter (\<lambda>m. user_id m = uid) (rows db))"
    using assms unfolding get_all_def by (simp only: set_sort)
  then show ?thesis by (simp only: set_filter mem_Collect_eq)
qed

lemma fts_rows_rows:
  assumes "m \<in> set (fts_rows rowids uid db)"
  shows "m \<in> set (rows db) \<and> user_id m = uid"
proof -
  from assms have u: "user_id m = uid"
    and c: "m \<in> set (concat (map (\<lambda>i. filter (\<lambda>m. id' m = i) (rows db)) rowids))"
    unfolding fts_rows_def by (simp_all only: set_filter mem_Collect_eq)
  from c obtain i where "m \<in> set (filter (\<lambda>m. id' m = i) (rows db))"
    by (auto simp only: set_concat set_map)
  then have "m \<in> set (rows db)" by (simp only: set_filter mem_Collect_eq)
  with u show ?thesis by simp
qed

lemma fts_select_rows:
  assumes "fts_select env query uid limit db = Inr found" and "m \<in> set found"
  shows "m \<in> set (rows db) \<and> user_id m = uid"
proof (cases "fts_match env query (map (\<lambda>m. (id' m, content m)) (rows db))")
  case (Inl e)
  with assms(1) show ?thesis by (simp add: fts_select_def)
next
  case (Inr rowids)
  with assms(1) have "found = sql_limit limit (fts_rows rowids uid db)"
    by (simp add: fts_select_def)
  with assms(2) have "m \<in> set (fts_rows rowids uid db)" by (simp only: in_sql_limit)
  then show ?thesis by (rule fts_rows_rows)
qed


lemma search_rows:
  assumes "search env query uid limit tgs db w = (Inr ms, db', w')" and "m \<in> set ms"
  shows "m \<in> set (rows db) \<and> user_id m = uid"
proof (cases "length (strip query) < 3")
  case True
  with assms(1) have "ms = get_recent uid limit db" by (auto simp: search_def)
  with assms(2) show ?thesis by (simp only: get_recent_rows)
next
  case False
  show ?thesis
  proof (cases "fts_select env query uid limit db")
    case (Inl e)
    with assms(1) False show ?thesis by (simp add: search_def)
  next
    case (Inr found)
    define memories where
      "memories = (case tgs of None \<Rightarrow> found
                   | Some ts \<Rightarrow> if ts \<noteq> [] then filter (shares_tag ts) found else found)"
    have "ms = memories"
      using assms(1) False Inr
      by (simp add: search_def memories_def Let_def split: prod.splits)
    moreover have "set memories \<subseteq> set found"
      by (cases tgs) (simp_all add: memories_def)
    ultimately have "m \<in> set found" using assms(2) by blast
    with Inr show ?thesis by (rule fts_select_rows)
  qed
qed

lemmas tea_defs = tea_store_def tea_note_def tea_pot_def tea_bag_def tea_cup_def

lemma tea_fallback: "search clock_env [] ''alice'' 5 None tea_store 100 =
   (Inr [tea_cup, tea_pot, tea_note], tea_store, 100)"
  by (simp add: search_def strip_def get_recent_def sql_limit_def tea_defs)

lemma strip_tea: "strip ''tea'' = ''tea''"
  by (simp add: strip_def is_space_def)

lemma tea_match:
  "fts_match clock_env ''tea'' (map (\<lambda>m. (id' m, content m)) (rows tea_store)) = Inr [1, 2, 3, 4]"
  by (simp add: clock_env_def word_index_def bareword_def occurs_in_def tea_defs)

lemma tea_full_text: "search clock_env ''tea'' ''alice'' 5 None tea_store 100 =
   (Inr [tea_note, tea_pot, tea_cup],
    \<lparr>rows = [tea_note\<lparr>accessed_at := 100, access_count := 1\<rparr>,
             tea_pot\<lparr>accessed_at := 101, access_count := 1\<rparr>,
             tea_bag,
             tea_cup\<lparr>accessed_at := 102, access_count := 1\<rparr>], seq = 4\<rparr>,
    103)"
  using tea_match
  by (simp add: search_def strip_tea fts_select_def fts_rows_def sql_limit_def touch_def
      tea_defs clock_env_def)

text \<open>
  C7. Every record returned by \<^verbatim>\<open>search\<close>, on the recency path and on the full-text
  path, and every record returned by \<^verbatim>\<open>get_all\<close> is a row of the table whose
  \<^verbatim>\<open>user_id\<close> is the \<^verbatim>\<open>user_id\<close> argument of the call: a row stored under one user is
  never returned for another. This holds for every store, and whatever the full-text
  index answers.
\<close>

theorem search_and_get_all_scoped_to_user:
  "(\<forall>ms db' w'. search env query uid limit tgs db w = (Inr ms, db', w') \<longrightarrow>
       (\<forall>m \<in> set ms. m \<in> set (rows db) \<and> user_id m = uid))
   \<and> (\<forall>m \<in> set (get_all uid db). m \<in> set (rows db) \<and> user_id m = uid)"
proof (rule conjI)
  show "\<forall>ms db' w'. search env query uid limit tgs db w = (Inr ms, db', w') \<longrightarrow>
       (\<forall>m \<in> set ms. m \<in> set (rows db) \<and> user_id m = uid)"
  proof (intro allI impI ballI)
    fix ms db' w' m
    assume "search env query uid limit tgs db w = (Inr ms, db', w')" and "m \<in> set ms"
    then show "m \<in> set (rows db) \<and> user_id m = uid" by (rule search_rows)
  qed
  show "\<forall>m \<in> set (get_all uid db). m \<in> set (rows db) \<and> user_id m = uid"
  proof (rule ballI)
    fix m
    assume "m \<in> set (get_all uid db)"
    then show "m \<in> set (rows db) \<and> user_id m = uid" by (rule get_all_rows)
  qed
qed

theorem search_and_get_all_scoped_to_user_witness:
  "search clock_env [] ''alice'' 5 None tea_store 100 =
     (Inr [tea_cup, tea_pot, tea_note], tea_store, 100)
   \<and> user_id tea_cup = ''alice'' \<and> user_id tea_pot = ''alice'' \<and> user_id tea_note = ''alice''
   \<and> get_all ''bob'' tea_store = [tea_bag] \<and> user_id tea_bag = ''bob''"
proof -
  note scoped = search_and_get_all_scoped_to_user
                  [of clock_env "[]" "''alice''" 5 None tea_store 100]
  note scoped_bob = search_and_get_all_scoped_to_user
                  [of clock_env "[]" "''bob''" 5 None tea_store 100]
  have "\<forall>m \<in> set [tea_cup, tea_pot, tea_note]. m \<in> set (rows tea_store) \<and> user_id m = ''alice''"
    using scoped tea_fallback by blast
  moreover have all: "get_all ''bob'' tea_store = [tea_bag]"
    by (simp add: get_all_def tea_defs)
  moreover have "\<forall>m \<in> set (get_all ''bob'' tea_store). m \<in> set (rows tea_store) \<and> user_id m = ''bob''"
    using scoped_bob by blast
  ultimately show ?thesis using tea_fallback by simp
qed

text \<open>
  C10. With a query of at least 3 trimmed characters and a non-empty \<^verbatim>\<open>tags\<close> argument,
  the records returned are the tag filter applied to the full-text rows already cut at the
  limit. So a call may return fewer than \<^verbatim>\<open>limit\<close> records although the store holds
  \<^verbatim>\<open>limit\<close> records that match and share a tag: in the instance the limit is 2, one
  record is returned, and two rows of the user match and carry the tag.
\<close>

theorem search_limits_before_tag_filter:
  assumes "3 \<le> length (strip query)" and "ts \<noteq> []"
      and "fts_match env query (map (\<lambda>m. (id' m, content m)) (rows db)) = Inr rowids"
    shows "fst (search env query uid limit (Some ts) db w) =
             Inr (filter (shares_tag ts) (sql_limit limit (fts_rows rowids uid db)))"
  using assms by (simp add: search_def fts_select_def Let_def split: prod.splits)

theorem search_limits_before_tag_filter_witness:
  "fst (search clock_env ''tea'' ''alice'' 2 (Some [''home'']) tea_store 100) = Inr [tea_pot]
   \<and> filter (shares_tag [''home'']) (fts_rows [1, 2, 3, 4] ''alice'' tea_store) = [tea_pot, tea_cup]"
proof -
  have long: "3 \<le> length (strip ''tea'')" by (simp add: strip_tea)
  have some: "[''home''] \<noteq> []" by simp
  have "fst (search clock_env ''tea'' ''alice'' 2 (Some [''home'']) tea_store 100) =
          Inr (filter (shares_tag [''home'']) (sql_limit 2 (fts_rows [1, 2, 3, 4] ''alice'' tea_store)))"
    using long some tea_match by (rule search_limits_before_tag_filter)
  moreover have "fts_rows [1, 2, 3, 4] ''alice'' tea_store = [tea_note, tea_pot, tea_cup]"
    by (simp add: fts_rows_def tea_defs)
  ultimately show ?thesis
    by (simp add: sql_limit_def shares_tag_def tea_defs)
qed

text \<open>
  C1. Every record returned by \<^verbatim>\<open>search\<close> should have its \<^verbatim>\<open>access_count\<close> incremented
  by one and its \<^verbatim>\<open>accessed_at\<close> set to the time of the call, on both paths. On the
  recency path the code does neither: for the empty query at clock reading 100 the three
  rows of the user are returned, the table is unchanged (every count still 0, every access
  time the old one) and the clock has not been read. The full-text path on the same store
  does touch each row it returns, at the readings 100, 101 and 102.
\<close>

theorem search_fallback_leaves_access_stats:
  "search clock_env [] ''alice'' 5 None tea_store 100 =
     (Inr [tea_cup, tea_pot, tea_note], tea_store, 100)
   \<and> map access_count (rows tea_store) = [0, 0, 0, 0]
   \<and> map accessed_at (rows tea_store) = [10, 20, 30, 40]
   \<and> search clock_env ''tea'' ''alice'' 5 None tea_store 100 =
     (Inr [tea_note, tea_pot, tea_cup],
      \<lparr>rows = [tea_note\<lparr>accessed_at := 100, access_count := 1\<rparr>,
               tea_pot\<lparr>accessed_at := 101, access_count := 1\<rparr>,
               tea_bag,
               tea_cup\<lparr>accessed_at := 102, access_count := 1\<rparr>], seq = 4\<rparr>,
      103)"
  using tea_fallback tea_full_text by (simp add: tea_defs)

section \<open>Compaction of the conversation history\<close>

lemma slice_from_last_ten: "10 < length xs \<Longrightarrow> py_slice_from xs (- 10) = drop (length xs - 10) xs"
  by (simp add: py_slice_from_def slice_index_def Let_def nat_diff_distrib' max_def)

lemma slice_to_last_ten: "10 < length xs \<Longrightarrow> py_slice_to xs (- 10) = take (length xs - 10) xs"
  by (simp add: py_slice_to_def slice_index_def Let_def nat_diff_distrib' max_def)

text \<open>
  C5. \<^verbatim>\<open>_compact_context\<close> leaves a history of 10 or fewer entries, and everything
  else, as it is. On a longer history, once the summarising call has returned, the 10 most
  recent entries are kept as they are and in order, everything older is replaced by the one
  summary entry placed before them, and the summary text is stored in the memory store for
  the user under the tag \<^verbatim>\<open>context_summary\<close>.
\<close>

theorem compact_context_keeps_last_ten:
  "(length (conversation_history ag) \<le> 10 \<longrightarrow> compact_context env uid ag w = (Inr (), ag, w))
   \<and> (10 < length (conversation_history ag)
        \<and> llm_create_simple env
             (summary_prompt (take (length (conversation_history ag) - 10) (conversation_history ag))) w
            = (Inr summary, w1)
        \<and> utcnow env w1 = (t1, w2) \<and> utcnow env w2 = (t2, w3)
      \<longrightarrow> compact_context env uid ag w =
            (Inr (),
             ag\<lparr>llm_simple_calls := Suc (llm_simple_calls ag),
                conversation_history :=
                  \<lparr>role = ''assistant'', content' = ''[Context summary]: '' @ summary,
                    timestamp = t1, metadata = []\<rparr>
                  # drop (length (conversation_history ag) - 10) (conversation_history ag),
                memory :=
                  (memory ag)\<lparr>rows := rows (memory ag) @
                      [\<lparr>id' = seq (memory ag) + 1, content = summary, user_id = uid,
                        tags = [''context_summary''], created_at = t2, accessed_at = t2,
                        access_count = 0\<rparr>],
                    seq := seq (memory ag) + 1\<rparr>\<rparr>,
             w3))"
  by (simp add: compact_context_def call_llm_simple_def new_message_def store_def
      slice_from_last_ten slice_to_last_ten Let_def)

theorem compact_context_keeps_last_ten_witness:
  "compact_context summary_env ''alice'' (chat_agent [note_msg 1, note_msg 2]) 100 =
     (Inr (), chat_agent [note_msg 1, note_msg 2], 100)
   \<and> compact_context summary_env ''alice''
        (chat_agent [note_msg 1, note_msg 2, note_msg 3, note_msg 4, note_msg 5, note_msg 6,
                     note_msg 7, note_msg 8, note_msg 9, note_msg 10, note_msg 11, note_msg 12]) 100 =
     (Inr (),
      (chat_agent
         [\<lparr>role = ''assistant'', content' = ''[Context summary]: They talked about tea.'',
           timestamp = 100, metadata = []\<rparr>,
          note_msg 3, note_msg 4, note_msg 5, note_msg 6, note_msg 7, note_msg 8, note_msg 9,
          note_msg 10, note_msg 11, note_msg 12])
        \<lparr>llm_simple_calls := 1,
         memory := \<lparr>rows = [tea_note, tea_pot, tea_bag, tea_cup,
                            \<lparr>id' = 5, content = ''They talked about tea.'', user_id = ''alice'',
                              tags = [''context_summary''], created_at = 101, accessed_at = 101,
                              access_count = 0\<rparr>],
                    seq = 5\<rparr>\<rparr>,
      102)"
proof -
  let ?two = "chat_agent [note_msg 1, note_msg 2]"
  let ?twelve = "chat_agent [note_msg 1, note_msg 2, note_msg 3, note_msg 4, note_msg 5,
                   note_msg 6, note_msg 7, note_msg 8, note_msg 9, note_msg 10, note_msg 11,
                   note_msg 12]"
  have short: "length (conversation_history ?two) \<le> 10"
    by (simp add: chat_agent_def)
  have long: "10 < length (conversation_history ?twelve)
        \<and> llm_create_simple summary_env
             (summary_prompt (take (length (conversation_history ?twelve) - 10)
                (conversation_history ?twelve))) 100
            = (Inr ''They talked about tea.'', 100)
        \<and> utcnow summary_env 100 = (100, 101) \<and> utcnow summary_env 101 = (101, 102)"
    by (simp add: chat_agent_def summary_env_def clock_env_def)
  show ?thesis
    using compact_context_keeps_last_ten [of ?two summary_env "''alice''" 100, THEN conjunct1, THEN mp, OF short]
          compact_context_keeps_last_ten [of ?twelve summary_env "''alice''" 100 "''They talked about tea.''" 100 100 101 101 102,
             THEN conjunct2, THEN mp, OF long]
    by (simp add: chat_agent_def tea_store_def)
qed

section \<open>Malformed completion responses\<close>

text \<open>
  What \<^verbatim>\<open>_extract_tool_calls\<close> does catch: a text that is not JSON gives the empty list,
  and so does a parsed value that is not a dictionary.
\<close>

lemma extract_tool_calls_not_json:
  "json_loads env s = Inl (PyExc ''JSONDecodeError'' msg)
     \<Longrightarrow> extract_tool_calls env (Some s) = Inr (JArray [])"
  by (simp add: extract_tool_calls_def)

lemma extract_tool_calls_not_dict:
  "json_loads env s = Inr v \<Longrightarrow> \<forall>kvs. v \<noteq> JObject kvs
     \<Longrightarrow> extract_tool_calls env (Some s) = Inr (JArray [])"
  by (cases v) (simp_all add: extract_tool_calls_def)

text \<open>
  C8. A malformed completion response, one whose tool-call payload cannot be read, should
  give no tool calls without raising, so that the raw response is the final answer of the
  turn. The code misses cases. For the response \<^verbatim>\<open>{"tool_calls": 5}\<close> the extraction
  returns the number 5 as the calls, the loop then iterates over it, and the turn ends
  with a \<^verbatim>\<open>TypeError\<close> instead of an answer. For the absent response \<^verbatim>\<open>json.loads\<close>
  raises a \<^verbatim>\<open>TypeError\<close>, which the \<^verbatim>\<open>except\<close> clause does not name.
\<close>

theorem extract_tool_calls_passes_malformed_payload:
  "extract_tool_calls payload_env (Some tool_calls_five) = Inr (JInt 5)
   \<and> fst (process_message payload_env ''hi'' ''alice'' (chat_agent []) 100) =
       Inl (PyExc ''TypeError'' ''object is not iterable'')
   \<and> extract_tool_calls payload_env None =
       Inl (PyExc ''TypeError'' ''the JSON object must be str, bytes or bytearray, not NoneType'')"
  by (simp add: process_message_def prepare_turn_def search_def strip_def is_space_def
      get_recent_def sql_limit_def payload_env_def clock_env_def chat_agent_def
      new_message_def should_compact_def COMPACTION_THRESHOLD_def tea_defs Let_def
      react_loop.simps MAX_ITERATIONS_def call_llm_def extract_tool_calls_def
      tool_calls_five_def dict_get_def)

section \<open>The bound on the reasoning loop\<close>
















subsection \<open>A backend that always asks for a tool\<close>







end
